theory Spec2Isabelle
  imports Main "HOL-Library.Sublist" "HOL-Library.Char_ord"
begin

section \<open>pkg/fp: Reduce\<close>

text \<open>
  \<^verbatim>\<open>func Reduce[T any, R any](callback func(R, T) R, acc R) func([]T) R\<close> returns a
  closure over the parameter \<^verbatim>\<open>acc\<close>. The body of the closure assigns to that captured
  variable (\<^verbatim>\<open>acc = callback(acc, x)\<close>), so the closure is a value with one cell of
  state. The model makes the cell explicit: a closure is the callback together with the
  current content of the captured variable, and calling it returns the result and the
  closure as it is after the call.
\<close>

record ('t, 'r) reducer =
  red_callback :: "'r \<Rightarrow> 't \<Rightarrow> 'r"
  red_acc :: "'r"

text \<open>The \<^verbatim>\<open>for _, x := range xs\<close> loop of the closure body.\<close>

fun reduce_loop :: "('r \<Rightarrow> 't \<Rightarrow> 'r) \<Rightarrow> 'r \<Rightarrow> 't list \<Rightarrow> 'r" where
  "reduce_loop callback acc [] = acc"
| "reduce_loop callback acc (x # xs) = reduce_loop callback (callback acc x) xs"

definition Reduce :: "('r \<Rightarrow> 't \<Rightarrow> 'r) \<Rightarrow> 'r \<Rightarrow> ('t, 'r) reducer" where
  "Reduce callback acc = \<lparr>red_callback = callback, red_acc = acc\<rparr>"

text \<open>One application of the returned function: the loop runs on the captured variable,
  which keeps the final value, and that value is returned.\<close>

definition reducer_call :: "('t, 'r) reducer \<Rightarrow> 't list \<Rightarrow> 'r \<times> ('t, 'r) reducer" where
  "reducer_call f xs =
     (let acc' = reduce_loop (red_callback f) (red_acc f) xs
      in (acc', f\<lparr>red_acc := acc'\<rparr>))"

section \<open>pkg/middleware: the response writer wrapper\<close>

text \<open>
  HTTP headers are a map from header names to the list of values, as Go's
  \<^verbatim>\<open>http.Header\<close>. The methods \<^verbatim>\<open>Get\<close>, \<^verbatim>\<open>Set\<close> and \<^verbatim>\<open>Del\<close> bring the name they
  are given into canonical form first (\<^verbatim>\<open>textproto.CanonicalMIMEHeaderKey\<close>): a name
  made of token bytes only gets an upper-case letter at its start and after each hyphen
  and lower-case letters elsewhere; a name with any other byte is left as it is.
  \<^verbatim>\<open>Get\<close> returns the first value or the empty string.
\<close>

type_synonym header = "string \<rightharpoonup> string list"

definition validHeaderFieldByte :: "char \<Rightarrow> bool" where
  "validHeaderFieldByte c =
     (c \<in> set (''!#$%&*+-.^_|~'' @ [CHR 0x27, CHR 0x60])
      \<or> (CHR ''0'' \<le> c \<and> c \<le> CHR ''9'')
      \<or> (CHR ''A'' \<le> c \<and> c \<le> CHR ''Z'')
      \<or> (CHR ''a'' \<le> c \<and> c \<le> CHR ''z''))"

text \<open>The loop of \<^verbatim>\<open>canonicalMIMEHeaderKey\<close>; \<open>upper\<close> says that the next letter is
  to be in upper case.\<close>

fun canonical_bytes :: "bool \<Rightarrow> string \<Rightarrow> string" where
  "canonical_bytes upper [] = []"
| "canonical_bytes upper (c # cs) =
     (let c = (if upper \<and> CHR ''a'' \<le> c \<and> c \<le> CHR ''z'' then char_of (of_char c - (32::nat))
               else if \<not> upper \<and> CHR ''A'' \<le> c \<and> c \<le> CHR ''Z'' then char_of (of_char c + (32::nat))
               else c)
      in c # canonical_bytes (c = CHR ''-'') cs)"

definition CanonicalMIMEHeaderKey :: "string \<Rightarrow> string" where
  "CanonicalMIMEHeaderKey s = (if list_all validHeaderFieldByte s then canonical_bytes True s else s)"

definition Header_Get :: "header \<Rightarrow> string \<Rightarrow> string" where
  "Header_Get h key =
     (case h (CanonicalMIMEHeaderKey key) of None \<Rightarrow> [] | Some [] \<Rightarrow> [] | Some (v # _) \<Rightarrow> v)"

definition Header_Set :: "header \<Rightarrow> string \<Rightarrow> string \<Rightarrow> header" where
  "Header_Set h key v = h(CanonicalMIMEHeaderKey key \<mapsto> [v])"

definition Header_Del :: "header \<Rightarrow> string \<Rightarrow> header" where
  "Header_Del h key = h(CanonicalMIMEHeaderKey key := None)"

text \<open>
  A byte stream that is read to its end (\<^verbatim>\<open>io.Reader\<close> under \<^verbatim>\<open>io.Copy\<close>): the bytes
  it still delivers, and the error, if any, with which it ends instead of EOF.
\<close>

datatype reader = Reader (pending: string) (failure: "string option")

text \<open>\<^verbatim>\<open>io.Copy(buf, r)\<close>: the bytes read, or the read error.\<close>

definition io_Copy :: "reader \<Rightarrow> string + string" where
  "io_Copy r = (case failure r of Some e \<Rightarrow> Inl e | None \<Rightarrow> Inr (pending r))"

text \<open>
  The underlying \<^verbatim>\<open>http.ResponseWriter\<close> is an interface value whose methods are
  not code of the repository. The model keeps the header map that \<^verbatim>\<open>Header()\<close>
  returns, every status code passed to \<^verbatim>\<open>WriteHeader\<close> in order, the bytes that the
  writer holds for the client, to which \<^verbatim>\<open>Write\<close> appends, and the number of flushes.
  The optional capabilities that the wrapper and the middleware test with type assertions
  are fields, each with what the method of the dynamic type does:
  \<^item> whether it implements \<^verbatim>\<open>http.Flusher\<close>, and what its \<^verbatim>\<open>Flush\<close> does to the header
    map and the bytes held;
  \<^item> what its \<^verbatim>\<open>Hijack\<close> returns if it implements \<^verbatim>\<open>http.Hijacker\<close>;
  \<^item> if it implements \<^verbatim>\<open>io.Reader\<close>: from the bytes held, the stream that reading it
    yields and the bytes it holds once the stream has been read to its end (a writer
    that reads from the buffer it writes to holds nothing afterwards).
  A \<^verbatim>\<open>Write\<close> before any \<^verbatim>\<open>WriteHeader\<close> sends the status 200 inside the underlying
  writer; no call of \<^verbatim>\<open>WriteHeader\<close> is recorded for it.
\<close>

type_synonym hijack_result = "nat option \<times> nat option \<times> string option"

record sink =
  sink_header :: header
  sink_codes :: "int list"
  sink_body :: string
  sink_flushes :: nat
  sink_flusher :: bool
  sink_flush :: "header \<times> string \<Rightarrow> header \<times> string"
  sink_hijacker :: "hijack_result option"
  sink_reader :: "(string \<Rightarrow> reader \<times> string) option"

definition sink_WriteHeader :: "sink \<Rightarrow> int \<Rightarrow> sink" where
  "sink_WriteHeader s code = s\<lparr>sink_codes := sink_codes s @ [code]\<rparr>"

definition sink_Write :: "sink \<Rightarrow> string \<Rightarrow> sink" where
  "sink_Write s b = s\<lparr>sink_body := sink_body s @ b\<rparr>"

definition sink_Flush :: "sink \<Rightarrow> sink" where
  "sink_Flush s =
     (let (h, b) = sink_flush s (sink_header s, sink_body s)
      in s\<lparr>sink_header := h, sink_body := b, sink_flushes := Suc (sink_flushes s)\<rparr>)"

text \<open>\<^verbatim>\<open>type statusResponseWriter struct { http.ResponseWriter; statusCode int }\<close>\<close>

record statusResponseWriter =
  ResponseWriter :: sink
  statusCode :: int

definition wrapResponseWriter :: "sink \<Rightarrow> statusResponseWriter" where
  "wrapResponseWriter w = \<lparr>ResponseWriter = w, statusCode = 0\<rparr>"

definition WriteHeader :: "statusResponseWriter \<Rightarrow> int \<Rightarrow> statusResponseWriter" where
  "WriteHeader w code =
     (let w = w\<lparr>statusCode := code\<rparr>
      in w\<lparr>ResponseWriter := sink_WriteHeader (ResponseWriter w) code\<rparr>)"

definition StatusOK :: int where "StatusOK = 200"
definition StatusBadRequest :: int where "StatusBadRequest = 400"
definition StatusInternalServerError :: int where "StatusInternalServerError = 500"

definition Status :: "statusResponseWriter \<Rightarrow> int" where
  "Status w = (if statusCode w = 0 then StatusOK else statusCode w)"

definition Flush :: "statusResponseWriter \<Rightarrow> statusResponseWriter" where
  "Flush w =
     (if sink_flusher (ResponseWriter w)
      then w\<lparr>ResponseWriter := sink_Flush (ResponseWriter w)\<rparr>
      else w)"

definition Hijack :: "statusResponseWriter \<Rightarrow> hijack_result" where
  "Hijack w =
     (case sink_hijacker (ResponseWriter w) of
        Some res \<Rightarrow> res
      | None \<Rightarrow> (None, None, Some ''underlying ResponseWriter does not implement http.Hijacker''))"

text \<open>
  What a handler does with the writer it is given, as the sequence of its calls. The
  methods \<^verbatim>\<open>Header\<close> and \<^verbatim>\<open>Write\<close> are promoted from the embedded writer;
  \<^verbatim>\<open>WriteHeader\<close> and \<^verbatim>\<open>Flush\<close> are the wrapper's own.
\<close>

datatype writer_call =
    CallWriteHeader int
  | CallWrite string
  | CallHeaderSet string string
  | CallHeaderDel string
  | CallFlush

fun writer_step :: "statusResponseWriter \<Rightarrow> writer_call \<Rightarrow> statusResponseWriter" where
  "writer_step w (CallWriteHeader code) = WriteHeader w code"
| "writer_step w (CallWrite b) = w\<lparr>ResponseWriter := sink_Write (ResponseWriter w) b\<rparr>"
| "writer_step w (CallHeaderSet k v) =
     w\<lparr>ResponseWriter := (ResponseWriter w)\<lparr>sink_header := Header_Set (sink_header (ResponseWriter w)) k v\<rparr>\<rparr>"
| "writer_step w (CallHeaderDel k) =
     w\<lparr>ResponseWriter := (ResponseWriter w)\<lparr>sink_header := Header_Del (sink_header (ResponseWriter w)) k\<rparr>\<rparr>"
| "writer_step w CallFlush = Flush w"

definition writer_run :: "statusResponseWriter \<Rightarrow> writer_call list \<Rightarrow> statusResponseWriter" where
  "writer_run w calls = foldl writer_step w calls"

text \<open>The status codes a sequence of calls passes to \<^verbatim>\<open>WriteHeader\<close>, in order.\<close>

fun codes_of :: "writer_call list \<Rightarrow> int list" where
  "codes_of [] = []"
| "codes_of (CallWriteHeader code # cs) = code # codes_of cs"
| "codes_of (_ # cs) = codes_of cs"

section \<open>pkg/middleware: WithLogger\<close>

subsection \<open>Strings\<close>

text \<open>
  Go strings are byte sequences; a \<open>string\<close> here is the list of its bytes.
  \<^verbatim>\<open>strings.ToLower\<close> is modelled on its ASCII path: the bytes \<^verbatim>\<open>'A'\<close> to \<^verbatim>\<open>'Z'\<close>
  are moved by \<^verbatim>\<open>'a' - 'A'\<close> = 32 and every other byte is kept. For a string with a
  byte above 127 the function of Go maps runes; such content types are outside the
  model, and every content type in the theorems below that is evaluated is ASCII.
\<close>

definition lower_byte :: "char \<Rightarrow> char" where
  "lower_byte c =
     (if CHR ''A'' \<le> c \<and> c \<le> CHR ''Z'' then char_of (of_char c + (32::nat)) else c)"

definition ToLower :: "string \<Rightarrow> string" where
  "ToLower s = map lower_byte s"

text \<open>\<^verbatim>\<open>strings.Contains(s, substr)\<close>: \<open>substr\<close> occurs in \<open>s\<close> at some position.\<close>

fun Contains :: "string \<Rightarrow> string \<Rightarrow> bool" where
  "Contains [] substr = (substr = [])"
| "Contains (c # s) substr = (prefix substr (c # s) \<or> Contains s substr)"

definition shouldLogBody :: "string \<Rightarrow> bool" where
  "shouldLogBody contentType =
     (let contentType = ToLower contentType
      in Contains contentType ''application/json''
         \<or> Contains contentType ''application/x-www-form-urlencoded''
         \<or> Contains contentType ''application/xml''
         \<or> Contains contentType ''text/xml'')"

subsection \<open>Requests, configuration, libraries\<close>

text \<open>\<^verbatim>\<open>url.Values\<close>: a map from a key to its values.\<close>

type_synonym url_values = "string \<rightharpoonup> string list"

text \<open>
  Request-scoped context: \<^verbatim>\<open>context.WithValue\<close> puts a new layer on top of the context
  it is given and never changes that context; \<^verbatim>\<open>Value\<close> finds the topmost layer with
  the key. The head of the list is the topmost layer.
\<close>

datatype ctx_key =
    UserKey | PoolKey | SessionKey | TenantIDKey | AppKey | HeadKey | LogoKey
  | LoggerKey | ParamsKey | PageCtxKey | RequestStart | OtherKey string

datatype ctx_value =
    UserVal nat
  | PoolVal nat
  | SessionVal
  | TenantIDVal nat
  | AppVal nat
  | NopComponent
  | LoggerVal "(string \<times> string) list"
  | ParamsVal string string bool
  | PageCtxVal string string
  | TimeVal nat
  | OtherVal string

type_synonym ctx = "(ctx_key \<times> ctx_value) list"

definition WithValue :: "ctx \<Rightarrow> ctx_key \<Rightarrow> ctx_value \<Rightarrow> ctx" where
  "WithValue ctx k v = (k, v) # ctx"

definition Value :: "ctx \<Rightarrow> ctx_key \<Rightarrow> ctx_value option" where
  "Value ctx k = map_of ctx k"

text \<open>
  The fields of \<^verbatim>\<open>*http.Request\<close> that the middleware and the test suite use. A nil
  \<^verbatim>\<open>Body\<close>, \<^verbatim>\<open>PostForm\<close> or \<^verbatim>\<open>Form\<close> is \<open>None\<close>.
\<close>

record request =
  req_method :: string
  req_uri :: string
  req_path :: string
  req_rawquery :: string
  req_host :: string
  req_remote :: string
  req_header :: header
  req_body :: "reader option"
  req_postform :: "url_values option"
  req_form :: "url_values option"
  req_ctx :: ctx

record configuration =
  RealIPHeader :: string
  RequestIDHeader :: string

record LoggerOptions =
  LogRequestBody :: bool
  LogResponseBody :: bool
  MaxBodyLength :: int

definition NewLoggerOptions :: "bool \<Rightarrow> bool \<Rightarrow> int \<Rightarrow> LoggerOptions" where
  "NewLoggerOptions logRequestBody logResponseBody maxBodyLength =
     \<lparr>LogRequestBody = logRequestBody, LogResponseBody = logResponseBody,
      MaxBodyLength = maxBodyLength\<rparr>"

definition DefaultLoggerOptions :: LoggerOptions where
  "DefaultLoggerOptions = NewLoggerOptions True True 512"

text \<open>
  What the middleware takes from packages outside the repository, as parameters: whether
  \<^verbatim>\<open>json.Unmarshal\<close> and \<^verbatim>\<open>xml.Unmarshal\<close> into an empty interface accept a body (return
  a nil error), \<^verbatim>\<open>url.ParseQuery\<close> (the values and whether the error is nil),
  \<^verbatim>\<open>mime.ParseMediaType\<close> (the media type and whether the error is nil), the string of the
  UUID that \<^verbatim>\<open>uuid.New()\<close> draws for this request, the clock reading, what
  \<^verbatim>\<open>propagator.Inject\<close> does to the response headers, and the trace and span identifiers
  of the started span when its context has a trace id.
\<close>

record library =
  json_Unmarshal :: "string \<Rightarrow> bool"
  xml_Unmarshal :: "string \<Rightarrow> bool"
  url_ParseQuery :: "string \<Rightarrow> url_values \<times> bool"
  mime_ParseMediaType :: "string \<Rightarrow> string \<times> bool"
  uuid_New :: string
  time_Now :: nat
  propagator_Inject :: "header \<Rightarrow> header"
  span_ids :: "(string \<times> string) option"

datatype level = InfoLevel | ErrorLevel

text \<open>A log entry is its level and its message; the fields attached to it are left out.\<close>

type_synonym log_event = "level \<times> string"

definition getRealIP :: "request \<Rightarrow> configuration \<Rightarrow> string" where
  "getRealIP r conf =
     (if length (Header_Get (req_header r) (RealIPHeader conf)) > 0
      then Header_Get (req_header r) (RealIPHeader conf)
      else req_remote r)"

definition getRequestID :: "library \<Rightarrow> request \<Rightarrow> configuration \<Rightarrow> string" where
  "getRequestID L r conf =
     (if length (Header_Get (req_header r) (RequestIDHeader conf)) > 0
      then Header_Get (req_header r) (RequestIDHeader conf)
      else uuid_New L)"

subsection \<open>Library calls with effects\<close>

text \<open>
  \<^verbatim>\<open>http.Error(w, msg, code)\<close> deletes the Content-Length header, sets the content type
  to plain text and the no-sniff header, writes the status code, and writes the message
  followed by a newline.
\<close>

definition http_Error :: "sink \<Rightarrow> string \<Rightarrow> int \<Rightarrow> sink" where
  "http_Error w msg code =
     (let h = Header_Del (sink_header w) ''Content-Length'';
          h = Header_Set h ''Content-Type'' ''text/plain; charset=utf-8'';
          h = Header_Set h ''X-Content-Type-Options'' ''nosniff'';
          w = w\<lparr>sink_header := h\<rparr>;
          w = sink_WriteHeader w code
      in sink_Write w (msg @ [CHR 0x0A]))"

text \<open>
  \<^verbatim>\<open>(*http.Request).ParseForm\<close> of net/http. When \<^verbatim>\<open>PostForm\<close> is nil and the method is
  POST, PUT or PATCH, \<^verbatim>\<open>parsePostForm\<close> runs: for a non-nil body whose media type is
  \<^verbatim>\<open>application/x-www-form-urlencoded\<close> it reads the body through a limit of
  \<^verbatim>\<open>10 << 20\<close> + 1 bytes and parses what it read. The bytes it reads are gone from the
  body. Then \<^verbatim>\<open>Form\<close>, when nil, becomes the post values followed by the values of the
  URL query. The first error met is returned; the result here is whether it is nil.
\<close>

definition maxFormSize :: nat where
  "maxFormSize = 10485760"

definition copyValues :: "url_values \<Rightarrow> url_values \<Rightarrow> url_values" where
  "copyValues dst src =
     (\<lambda>k. case src k of
             None \<Rightarrow> dst k
           | Some vs \<Rightarrow> Some ((case dst k of None \<Rightarrow> [] | Some ws \<Rightarrow> ws) @ vs))"

definition parsePostForm :: "library \<Rightarrow> request \<Rightarrow> (url_values option \<times> bool) \<times> request" where
  "parsePostForm L r =
     (case req_body r of
        None \<Rightarrow> ((None, True), r)
      | Some body \<Rightarrow>
          (let ct = Header_Get (req_header r) ''Content-Type'';
               ct = (if ct = [] then ''application/octet-stream'' else ct);
               (ct, ok) = mime_ParseMediaType L ct
           in if ct = ''application/x-www-form-urlencoded'' then
                (let b = take (maxFormSize + 1) (pending body);
                     rest = drop (maxFormSize + 1) (pending body);
                     r = r\<lparr>req_body := Some (Reader rest (failure body))\<rparr>
                 in if rest = [] \<and> failure body \<noteq> None then ((None, False), r)
                    else if length b > maxFormSize then ((None, False), r)
                    else (let (vs, e) = url_ParseQuery L b in ((Some vs, ok \<and> e), r)))
              else ((None, ok), r)))"

definition ParseForm :: "library \<Rightarrow> request \<Rightarrow> bool \<times> request" where
  "ParseForm L r =
     (let (err, r) =
            (if req_postform r = None then
               (let ((pf, err), r) =
                      (if req_method r = ''POST'' \<or> req_method r = ''PUT'' \<or> req_method r = ''PATCH''
                       then parsePostForm L r
                       else ((None, True), r))
                in (err, r\<lparr>req_postform := Some (case pf of None \<Rightarrow> Map.empty | Some vs \<Rightarrow> vs)\<rparr>))
             else (True, r))
      in if req_form r = None then
           (let (newValues, e) = url_ParseQuery L (req_rawquery r);
                pf = (case req_postform r of None \<Rightarrow> Map.empty | Some vs \<Rightarrow> vs)
            in (err \<and> e, r\<lparr>req_form := Some (copyValues pf newValues)\<rparr>))
         else (err, r))"

subsection \<open>The middleware\<close>

text \<open>
  The downstream handler, as the calls it makes on the writer it is given, which may
  depend on the request it is given.
\<close>

type_synonym handler = "request \<Rightarrow> writer_call list"

text \<open>
  What one run of the middleware leaves behind: the underlying writer, the log entries in
  order, and the arguments of the call of \<^verbatim>\<open>next.ServeHTTP\<close>, which are the request and
  the underlying writer, inside the wrapper, as it is at the moment of the call (both
  \<open>None\<close> when the chain was aborted before the call).
\<close>

record outcome =
  out_writer :: sink
  out_log :: "log_event list"
  out_next :: "request option"
  out_given :: "sink option"

text \<open>
  The request-body block (the body of \<^verbatim>\<open>if logReqBody && r.Body != nil\<close>). \<open>Inl\<close> is
  one of the early returns, after \<^verbatim>\<open>http.Error\<close>; \<open>Inr\<close> is the request as it leaves the
  block. The \<^verbatim>\<open>switch\<close> tests \<^verbatim>\<open>reqContentType\<close> as it came from the header.
\<close>

definition request_body_block ::
  "library \<Rightarrow> string \<Rightarrow> sink \<Rightarrow> request \<Rightarrow> reader \<Rightarrow> (sink \<times> log_event list) + (request \<times> log_event list)" where
  "request_body_block L reqContentType w r body =
     (case io_Copy body of
        Inl err \<Rightarrow>
          Inl (http_Error w ''failed to read request-body'' StatusInternalServerError,
               [(ErrorLevel, ''failed to read request-body'')])
      | Inr bodyBuf \<Rightarrow>
          (let r = r\<lparr>req_body := Some (Reader bodyBuf None)\<rparr>
           in if Contains reqContentType ''application/json'' then
                (if \<not> json_Unmarshal L bodyBuf
                 then Inl (http_Error w ''failed to parse JSON request-body'' StatusBadRequest,
                           [(ErrorLevel, ''failed to parse JSON request-body'')])
                 else Inr (r, [(InfoLevel, ''JSON request-body parsed'')]))
              else if Contains reqContentType ''application/x-www-form-urlencoded'' then
                (let (ok, r) = ParseForm L r
                 in if \<not> ok
                    then Inl (http_Error w ''failed to parse form-urlencoded request-body'' StatusBadRequest,
                              [(ErrorLevel, ''failed to parse form-urlencoded request-body'')])
                    else Inr (r, [(InfoLevel, ''form-urlencoded request-body parsed'')]))
              else if Contains reqContentType ''application/xml'' \<or> Contains reqContentType ''text/xml'' then
                (if \<not> xml_Unmarshal L bodyBuf
                 then Inl (http_Error w ''failed to parse XML request-body'' StatusBadRequest,
                           [(ErrorLevel, ''failed to parse XML request-body'')])
                 else Inr (r, [(InfoLevel, ''XML request-body parsed'')]))
              else Inr (r, [(InfoLevel, ''request-body parsed'')])))"

text \<open>
  The response-body block (from \<^verbatim>\<open>respContentType := ...\<close> to the end of the handler):
  the wrapped writer as the block leaves it, and the log entries of the block. The block
  calls \<^verbatim>\<open>Flush\<close> on the wrapper and, if the underlying writer is a reader, copies from
  it until the stream ends; \<open>read\<close> is the wrapped writer after the copy.
\<close>

definition response_body_block ::
  "library \<Rightarrow> LoggerOptions \<Rightarrow> statusResponseWriter \<Rightarrow> statusResponseWriter \<times> log_event list" where
  "response_body_block L opts wrappedWriter =
     (let respContentType = Header_Get (sink_header (ResponseWriter wrappedWriter)) ''Content-Type'';
          logRespBody = LogResponseBody opts \<and> shouldLogBody respContentType
      in if logRespBody then
           (let wrappedWriter = Flush wrappedWriter
            in case sink_reader (ResponseWriter wrappedWriter) of
                 Some reading \<Rightarrow>
                   (let (stream, left) = reading (sink_body (ResponseWriter wrappedWriter));
                        read = wrappedWriter\<lparr>ResponseWriter :=
                          (ResponseWriter wrappedWriter)\<lparr>sink_body := left\<rparr>\<rparr>
                    in case io_Copy stream of
                         Inl err \<Rightarrow> (read, [(ErrorLevel, ''failed to read response-body'')])
                       | Inr bodyBuf \<Rightarrow>
                           if Contains respContentType ''application/json'' then
                             (if \<not> json_Unmarshal L bodyBuf
                              then (read, [(ErrorLevel, ''failed to parse JSON response-body'')])
                              else (read, [(InfoLevel, ''JSON response-body parsed'')]))
                           else if Contains respContentType ''application/xml''
                                   \<or> Contains respContentType ''text/xml'' then
                             (if \<not> xml_Unmarshal L bodyBuf
                              then (read, [(ErrorLevel, ''failed to parse XML response-body'')])
                              else (read, [(InfoLevel, ''XML response-body parsed'')]))
                           else (read, [(InfoLevel, ''response-body parsed'')]))
               | None \<Rightarrow>
                   (wrappedWriter, [(ErrorLevel, ''underlying ResponseWriter does not implement io.Reader'')]))
         else (wrappedWriter, []))"

text \<open>
  The response headers that the middleware sets before it calls the next handler:
  the injected trace context, the trace and span ids when there are any, and the
  request id.
\<close>

definition response_headers :: "library \<Rightarrow> string \<Rightarrow> sink \<Rightarrow> sink" where
  "response_headers L requestID w =
     (let h = propagator_Inject L (sink_header w);
          h = (case span_ids L of
                 Some (traceID, spanID) \<Rightarrow>
                   Header_Set (Header_Set h ''X-Trace-Id'' traceID) ''X-Span-Id'' spanID
               | None \<Rightarrow> h);
          h = Header_Set h ''X-Request-Id'' requestID
      in w\<lparr>sink_header := h\<rparr>)"

definition WithLogger ::
  "library \<Rightarrow> configuration \<Rightarrow> LoggerOptions \<Rightarrow> handler \<Rightarrow> sink \<Rightarrow> request \<Rightarrow> outcome" where
  "WithLogger L conf opts next w r =
     (let start = time_Now L;
          requestID = getRequestID L r conf;
          fields = [(''request-id'', requestID), (''path'', req_uri r), (''method'', req_method r)];
          started = [(InfoLevel, ''request started'')];
          reqContentType = Header_Get (req_header r) ''Content-Type'';
          logReqBody = LogRequestBody opts \<and> shouldLogBody reqContentType
      in case (case req_body r of
                 Some body \<Rightarrow>
                   if logReqBody then request_body_block L reqContentType w r body
                   else Inr (r, [])
               | None \<Rightarrow> Inr (r, [])) of
           Inl (w, entries) \<Rightarrow>
             \<lparr>out_writer = w, out_log = started @ entries, out_next = None, out_given = None\<rparr>
         | Inr (r, entries) \<Rightarrow>
             (let ctx = WithValue (req_ctx r) LoggerKey (LoggerVal fields);
                  ctx = WithValue ctx RequestStart (TimeVal start);
                  w = response_headers L requestID w;
                  wrappedWriter = wrapResponseWriter w;
                  r = r\<lparr>req_ctx := ctx\<rparr>;
                  given = ResponseWriter wrappedWriter;
                  wrappedWriter = writer_run wrappedWriter (next r);
                  completed = [(InfoLevel, ''request completed'')];
                  (wrappedWriter, observed) = response_body_block L opts wrappedWriter
              in \<lparr>out_writer = ResponseWriter wrappedWriter,
                  out_log = started @ entries @ completed @ observed,
                  out_next = Some r,
                  out_given = Some given\<rparr>))"

text \<open>The response in a writer: the status codes it has received, its headers and the
  bytes it holds.\<close>

definition sent :: "sink \<Rightarrow> int list \<times> header \<times> string" where
  "sent s = (sink_codes s, sink_header s, sink_body s)"

text \<open>The header that a call changes, if it changes one, under its canonical name.\<close>

fun call_header :: "writer_call \<Rightarrow> string option" where
  "call_header (CallHeaderSet k v) = Some (CanonicalMIMEHeaderKey k)"
| "call_header (CallHeaderDel k) = Some (CanonicalMIMEHeaderKey k)"
| "call_header _ = None"

section \<open>pkg/itf: the test suite\<close>

subsection \<open>The request pipeline of a suite\<close>

text \<open>
  Users, pools, tenants and applications are identified by numbers. A nil user is \<open>None\<close>.
\<close>

record TestEnvironment =
  env_User :: "nat option"
  env_Pool :: nat
  env_Tenant_ID :: nat
  env_App :: nat

type_synonym MiddlewareFunc = "ctx \<Rightarrow> request \<Rightarrow> ctx"

type_synonym HookFunc = "ctx \<Rightarrow> ctx"

record Suite =
  suite_env :: TestEnvironment
  suite_user :: "nat option"
  suite_middlewares :: "MiddlewareFunc list"
  suite_beforeEach :: "HookFunc list"

definition WithMiddleware :: "Suite \<Rightarrow> MiddlewareFunc \<Rightarrow> Suite" where
  "WithMiddleware s middleware = s\<lparr>suite_middlewares := suite_middlewares s @ [middleware]\<rparr>"

definition BeforeEach :: "Suite \<Rightarrow> HookFunc \<Rightarrow> Suite" where
  "BeforeEach s hook = s\<lparr>suite_beforeEach := suite_beforeEach s @ [hook]\<rparr>"

text \<open>
  Modelled from the spec: the functions \<^verbatim>\<open>WithUser\<close>, \<^verbatim>\<open>WithPool\<close>, \<^verbatim>\<open>WithSession\<close>,
  \<^verbatim>\<open>WithTenantID\<close>, \<^verbatim>\<open>WithParams\<close> and \<^verbatim>\<open>WithPageCtx\<close> of package composables are
  called by the suite and are not among the sources. By the specification each
  attachment "returns a new context layer; never mutates a previous layer in place"; so
  each one puts its argument on top of the context under a key of its own.
\<close>

definition WithUser :: "ctx \<Rightarrow> nat \<Rightarrow> ctx" where
  "WithUser c u = WithValue c UserKey (UserVal u)"

definition WithPool :: "ctx \<Rightarrow> nat \<Rightarrow> ctx" where
  "WithPool c p = WithValue c PoolKey (PoolVal p)"

definition WithSession :: "ctx \<Rightarrow> ctx" where
  "WithSession c = WithValue c SessionKey SessionVal"

definition WithTenantID :: "ctx \<Rightarrow> nat \<Rightarrow> ctx" where
  "WithTenantID c t = WithValue c TenantIDKey (TenantIDVal t)"

definition WithParams :: "ctx \<Rightarrow> string \<Rightarrow> string \<Rightarrow> bool \<Rightarrow> ctx" where
  "WithParams c ip userAgent authenticated =
     WithValue c ParamsKey (ParamsVal ip userAgent authenticated)"

definition WithPageCtx :: "ctx \<Rightarrow> string \<Rightarrow> string \<Rightarrow> ctx" where
  "WithPageCtx c locale url = WithValue c PageCtxKey (PageCtxVal locale url)"

text \<open>The two loops of the handler: \<^verbatim>\<open>ctx = hook(ctx)\<close> and \<^verbatim>\<open>ctx = mw(ctx, r)\<close>.\<close>

fun run_hooks :: "HookFunc list \<Rightarrow> ctx \<Rightarrow> ctx" where
  "run_hooks [] c = c"
| "run_hooks (hook # hooks) c = run_hooks hooks (hook c)"

fun run_middlewares :: "MiddlewareFunc list \<Rightarrow> request \<Rightarrow> ctx \<Rightarrow> ctx" where
  "run_middlewares [] r c = c"
| "run_middlewares (mw # mws) r c = run_middlewares mws r (mw c r)"

text \<open>
  The handler that \<^verbatim>\<open>setupMiddleware\<close> installs, as the context of the request that it
  passes to the next handler, from the request it receives.
\<close>

definition setupMiddleware :: "Suite \<Rightarrow> request \<Rightarrow> ctx" where
  "setupMiddleware s r =
     (let c = req_ctx r;
          c = run_hooks (suite_beforeEach s) c;
          currentUser = (case suite_user s of Some u \<Rightarrow> Some u | None \<Rightarrow> env_User (suite_env s));
          c = (case currentUser of Some u \<Rightarrow> WithUser c u | None \<Rightarrow> c);
          c = WithPool c (env_Pool (suite_env s));
          c = WithSession c;
          c = WithTenantID c (env_Tenant_ID (suite_env s));
          c = WithValue c AppKey (AppVal (env_App (suite_env s)));
          c = WithValue c HeadKey NopComponent;
          c = WithValue c LogoKey NopComponent;
          c = WithValue c LoggerKey (LoggerVal [(''test'', ''true''), (''path'', req_path r)]);
          c = WithParams c ''127.0.0.1'' ''test-agent'' (currentUser \<noteq> None);
          c = WithPageCtx c ''en'' (req_path r);
          c = run_middlewares (suite_middlewares s) r c
      in c)"

text \<open>
  The standard attachments as the specification lists them: the layers that the suite
  itself puts on a context, the topmost first.
\<close>

definition standard_attachments :: "Suite \<Rightarrow> request \<Rightarrow> ctx" where
  "standard_attachments s r =
     (let currentUser = (case suite_user s of Some u \<Rightarrow> Some u | None \<Rightarrow> env_User (suite_env s))
      in [(PageCtxKey, PageCtxVal ''en'' (req_path r)),
          (ParamsKey, ParamsVal ''127.0.0.1'' ''test-agent'' (currentUser \<noteq> None)),
          (LoggerKey, LoggerVal [(''test'', ''true''), (''path'', req_path r)]),
          (LogoKey, NopComponent),
          (HeadKey, NopComponent),
          (AppKey, AppVal (env_App (suite_env s))),
          (TenantIDKey, TenantIDVal (env_Tenant_ID (suite_env s))),
          (SessionKey, SessionVal),
          (PoolKey, PoolVal (env_Pool (suite_env s)))]
         @ (case currentUser of Some u \<Rightarrow> [(UserKey, UserVal u)] | None \<Rightarrow> []))"

text \<open>
  The order of the pipeline in the words of the specification: the standard attachments
  first, then the before-each hooks, then the custom middleware functions.
\<close>

definition spec_pipeline :: "Suite \<Rightarrow> request \<Rightarrow> ctx" where
  "spec_pipeline s r =
     run_middlewares (suite_middlewares s) r
       (run_hooks (suite_beforeEach s) (standard_attachments s r @ req_ctx r))"

subsection \<open>The request builder\<close>

record Request =
  rq_method :: string
  rq_path :: string
  rq_headers :: header
  rq_body :: "string option"

record MultipartFile =
  FieldName :: string
  FileName :: string
  Content :: string

text \<open>
  \<^verbatim>\<open>formValues\<close> is a Go map that \<^verbatim>\<open>MultipartData\<close> ranges over; it is given here as
  the list of its entries in the order of that iteration, \<open>None\<close> when it is nil.
\<close>

record MultipartData =
  md_files :: "MultipartFile list"
  md_formValues :: "(string \<times> string list) list option"

text \<open>
  The encoders come from packages outside the repository and are parameters:
  \<^verbatim>\<open>json.Marshal\<close> (\<open>None\<close> when it returns an error), \<^verbatim>\<open>url.Values.Encode\<close>, and the
  methods of \<^verbatim>\<open>multipart.Writer\<close> on a writer state \<open>'w\<close> (\<open>None\<close> when a method returns
  an error): the writer made for a boundary, \<^verbatim>\<open>CreateFormFile\<close>, the \<^verbatim>\<open>Write\<close> of the
  part just created, \<^verbatim>\<open>WriteField\<close>, \<^verbatim>\<open>Close\<close>, the bytes in the buffer under the
  writer, and \<^verbatim>\<open>FormDataContentType\<close>.
\<close>

record ('v, 'w) encoders =
  json_Marshal :: "'v \<Rightarrow> string option"
  values_Encode :: "url_values \<Rightarrow> string"
  mp_NewWriter :: "string \<Rightarrow> 'w"
  mp_CreateFormFile :: "'w \<Rightarrow> string \<Rightarrow> string \<Rightarrow> 'w option"
  mp_part_Write :: "'w \<Rightarrow> string \<Rightarrow> 'w option"
  mp_WriteField :: "'w \<Rightarrow> string \<Rightarrow> string \<Rightarrow> 'w option"
  mp_Close :: "'w \<Rightarrow> 'w option"
  mp_Bytes :: "'w \<Rightarrow> string"
  mp_FormDataContentType :: "'w \<Rightarrow> string"

text \<open>
  A call of \<^verbatim>\<open>t.Fatalf\<close> ends the test; the builder method does not return, which is the
  result \<open>None\<close>.
\<close>

definition Request_JSON :: "('v, 'w) encoders \<Rightarrow> Request \<Rightarrow> 'v \<Rightarrow> Request option" where
  "Request_JSON E r v =
     (case json_Marshal E v of
        None \<Rightarrow> None
      | Some data \<Rightarrow>
          Some (r\<lparr>rq_body := Some data,
                  rq_headers := Header_Set (rq_headers r) ''Content-Type'' ''application/json''\<rparr>))"

definition Request_Form :: "('v, 'w) encoders \<Rightarrow> Request \<Rightarrow> url_values \<Rightarrow> Request" where
  "Request_Form E r values =
     r\<lparr>rq_body := Some (values_Encode E values),
       rq_headers := Header_Set (rq_headers r) ''Content-Type'' ''application/x-www-form-urlencoded''\<rparr>"

fun add_files :: "('v, 'w) encoders \<Rightarrow> MultipartFile list \<Rightarrow> 'w \<Rightarrow> 'w option" where
  "add_files E [] writer = Some writer"
| "add_files E (file # files) writer =
     (case mp_CreateFormFile E writer (FieldName file) (FileName file) of
        None \<Rightarrow> None
      | Some writer \<Rightarrow>
          (case mp_part_Write E writer (Content file) of
             None \<Rightarrow> None
           | Some writer \<Rightarrow> add_files E files writer))"

fun add_values :: "('v, 'w) encoders \<Rightarrow> string \<Rightarrow> string list \<Rightarrow> 'w \<Rightarrow> 'w option" where
  "add_values E key [] writer = Some writer"
| "add_values E key (v # vs) writer =
     (case mp_WriteField E writer key v of
        None \<Rightarrow> None
      | Some writer \<Rightarrow> add_values E key vs writer)"

fun add_fields :: "('v, 'w) encoders \<Rightarrow> (string \<times> string list) list \<Rightarrow> 'w \<Rightarrow> 'w option" where
  "add_fields E [] writer = Some writer"
| "add_fields E ((key, vs) # rest) writer =
     (case add_values E key vs writer of
        None \<Rightarrow> None
      | Some writer \<Rightarrow> add_fields E rest writer)"

text \<open>
  The first part of \<^verbatim>\<open>MultipartData\<close>, up to \<^verbatim>\<open>writer.Close()\<close>: the writer after the
  files, the form fields and the closing boundary have been written. \<open>boundary\<close> is the
  random boundary that \<^verbatim>\<open>multipart.NewWriter\<close> draws in this call.
\<close>

definition multipart_writer :: "('v, 'w) encoders \<Rightarrow> MultipartData \<Rightarrow> string \<Rightarrow> 'w option" where
  "multipart_writer E data boundary =
     (let writer = mp_NewWriter E boundary
      in case add_files E (md_files data) writer of
           None \<Rightarrow> None
         | Some writer \<Rightarrow>
             (case (case md_formValues data of
                      None \<Rightarrow> Some writer
                    | Some formValues \<Rightarrow> add_fields E formValues writer) of
                None \<Rightarrow> None
              | Some writer \<Rightarrow> mp_Close E writer))"

definition Request_MultipartData ::
  "('v, 'w) encoders \<Rightarrow> Request \<Rightarrow> MultipartData \<Rightarrow> string \<Rightarrow> Request option" where
  "Request_MultipartData E r data boundary =
     (case multipart_writer E data boundary of
        None \<Rightarrow> None
      | Some writer \<Rightarrow>
          Some (r\<lparr>rq_body := Some (mp_Bytes E writer),
                  rq_headers := Header_Set (rq_headers r) ''Content-Type''
                     (mp_FormDataContentType E writer)\<rparr>))"

text \<open>A body-encoding call on a builder, and a sequence of such calls.\<close>

datatype 'v body_call =
    CallJSON 'v
  | CallForm url_values
  | CallMultipartData MultipartData string

fun body_step :: "('v, 'w) encoders \<Rightarrow> Request \<Rightarrow> 'v body_call \<Rightarrow> Request option" where
  "body_step E r (CallJSON v) = Request_JSON E r v"
| "body_step E r (CallForm values) = Some (Request_Form E r values)"
| "body_step E r (CallMultipartData data boundary) = Request_MultipartData E r data boundary"

fun body_run :: "('v, 'w) encoders \<Rightarrow> Request \<Rightarrow> 'v body_call list \<Rightarrow> Request option" where
  "body_run E r [] = Some r"
| "body_run E r (c # cs) =
     (case body_step E r c of None \<Rightarrow> None | Some r \<Rightarrow> body_run E r cs)"

section \<open>Concrete inputs\<close>

text \<open>
  The inputs at which the theorems below are evaluated. The library functions of
  \<open>example_library\<close> agree with the Go packages on the arguments that occur in the
  examples: \<^verbatim>\<open>not-json\<close> is not JSON and \<^verbatim>\<open>{"a":1}\<close> is, \<^verbatim>\<open>a=1\<close> is the query with
  the one value 1 for the key a, and the media type of a content type without parameters
  is the content type in lower case. The example writer has none of the optional
  capabilities and holds nothing.
\<close>

definition example_library :: library where
  "example_library =
     \<lparr>json_Unmarshal = (\<lambda>b. b = ''{\"a\":1}''),
      xml_Unmarshal = (\<lambda>b. b = ''<a></a>''),
      url_ParseQuery = (\<lambda>q. if q = ''a=1'' then ([''a'' \<mapsto> [''1'']], True) else (Map.empty, q = [])),
      mime_ParseMediaType = (\<lambda>ct. (ToLower (takeWhile (\<lambda>c. c \<noteq> CHR '';'') ct), True)),
      uuid_New = ''123e4567-e89b-12d3-a456-426614174000'',
      time_Now = 0,
      propagator_Inject = (\<lambda>h. h),
      span_ids = None\<rparr>"

definition example_sink :: sink where
  "example_sink =
     \<lparr>sink_header = Map.empty, sink_codes = [], sink_body = [], sink_flushes = 0,
      sink_flusher = False, sink_flush = (\<lambda>held. held), sink_hijacker = None,
      sink_reader = None\<rparr>"

definition example_request :: "string \<Rightarrow> string \<Rightarrow> string \<Rightarrow> request" where
  "example_request method contentType body =
     \<lparr>req_method = method, req_uri = ''/echo'', req_path = ''/echo'', req_rawquery = [],
      req_host = ''example.com'', req_remote = ''192.0.2.1:1234'',
      req_header = [''Content-Type'' \<mapsto> [contentType]],
      req_body = Some (Reader body None), req_postform = None, req_form = None, req_ctx = []\<rparr>"

definition example_conf :: configuration where
  "example_conf = \<lparr>RealIPHeader = ''X-Real-Ip'', RequestIDHeader = ''X-Request-Id''\<rparr>"

text \<open>
  A suite with one before-each hook, which attaches the tenant 99, and one custom
  middleware function, which attaches a value of its own.
\<close>

definition example_suite :: Suite where
  "example_suite =
     \<lparr>suite_env = \<lparr>env_User = Some 7, env_Pool = 1, env_Tenant_ID = 1, env_App = 1\<rparr>,
      suite_user = None,
      suite_middlewares = [\<lambda>c r. WithValue c (OtherKey ''mw'') (OtherVal (req_path r))],
      suite_beforeEach = [\<lambda>c. WithValue c TenantIDKey (TenantIDVal 99)]\<rparr>"

text \<open>
  Encoders for the examples: JSON of a number in an object, the encoding of the value of
  the key a, and a multipart writer that is its boundary and its buffer.
\<close>

definition example_encoders :: "(nat option, string \<times> string) encoders" where
  "example_encoders =
     \<lparr>json_Marshal = (\<lambda>v. case v of None \<Rightarrow> None | Some n \<Rightarrow> Some (''{\"a\":'' @ replicate n CHR ''1'' @ ''}'')),
      values_Encode = (\<lambda>vs. case vs ''a'' of Some (v # _) \<Rightarrow> ''a='' @ v | _ \<Rightarrow> []),
      mp_NewWriter = (\<lambda>boundary. (boundary, [])),
      mp_CreateFormFile = (\<lambda>(b, buf) field file. Some (b, buf @ ''--'' @ b @ '' file '' @ field @ '' '' @ file @ '': '')),
      mp_part_Write = (\<lambda>(b, buf) content. Some (b, buf @ content)),
      mp_WriteField = (\<lambda>(b, buf) key v. Some (b, buf @ ''--'' @ b @ '' field '' @ key @ '': '' @ v)),
      mp_Close = (\<lambda>(b, buf). Some (b, buf @ ''--'' @ b @ ''--'')),
      mp_Bytes = snd,
      mp_FormDataContentType = (\<lambda>(b, buf). ''multipart/form-data; boundary='' @ b)\<rparr>"

definition example_builder :: Request where
  "example_builder =
     \<lparr>rq_method = ''POST'', rq_path = ''/echo'', rq_headers = Map.empty, rq_body = None\<rparr>"


text \<open>
  Two writers that can be flushed and read back. The first keeps a copy of what is
  written for reading and holds the bytes for the client whatever is read. The second
  reads from the buffer it writes to, as a \<^verbatim>\<open>bytes.Buffer\<close> does: the bytes read are no
  longer held. The handler answers with a JSON content type and a body that is not JSON.
\<close>

definition readable_sink :: sink where
  "readable_sink =
     example_sink\<lparr>sink_flusher := True, sink_reader := Some (\<lambda>held. (Reader held None, held))\<rparr>"

definition buffer_sink :: sink where
  "buffer_sink =
     example_sink\<lparr>sink_flusher := True, sink_reader := Some (\<lambda>held. (Reader held None, []))\<rparr>"

definition example_handler :: handler where
  "example_handler =
     (\<lambda>r. [CallHeaderSet ''Content-Type'' ''application/json'', CallWriteHeader 201,
           CallWrite ''{bad''])"

text \<open>The request that the middleware passes on when it is given an example request.\<close>

definition passed_on :: "request \<Rightarrow> request" where
  "passed_on r =
     r\<lparr>req_ctx := [(RequestStart, TimeVal 0),
                   (LoggerKey, LoggerVal [(''request-id'', ''123e4567-e89b-12d3-a456-426614174000''),
                                          (''path'', req_uri r), (''method'', req_method r)])]\<rparr>"

section \<open>Theorems: Reduce\<close>

lemma reduce_loop_foldl: "reduce_loop callback acc xs = foldl callback acc xs"
  by (induction xs arbitrary: acc) simp_all

text \<open>
  Claim C10. The function returned by \<^verbatim>\<open>Reduce(callback, acc)\<close> keeps its accumulator
  between calls: the first application to \<open>xs\<close> returns the left fold of the callback over
  \<open>xs\<close> from \<open>acc\<close>, and a second application to \<open>ys\<close> returns the left fold over \<open>ys\<close>
  from the first result (the fold over \<open>xs @ ys\<close> from \<open>acc\<close>), not from \<open>acc\<close>. With
  addition from 0, two calls on \<open>[1, 2, 3]\<close> return 6 and then 12.
\<close>

theorem Reduce_keeps_accumulator:
  "fst (reducer_call (Reduce callback acc) xs) = foldl callback acc xs
   \<and> fst (reducer_call (snd (reducer_call (Reduce callback acc) xs)) ys)
       = foldl callback (fst (reducer_call (Reduce callback acc) xs)) ys
   \<and> fst (reducer_call (snd (reducer_call (Reduce callback acc) xs)) ys)
       = foldl callback acc (xs @ ys)
   \<and> fst (reducer_call (Reduce (+) (0::int)) [1, 2, 3]) = 6
   \<and> fst (reducer_call (snd (reducer_call (Reduce (+) (0::int)) [1, 2, 3])) [1, 2, 3]) = 12"
  by (simp add: reducer_call_def Reduce_def Let_def reduce_loop_foldl)

section \<open>Theorems: the response writer wrapper\<close>

lemma writer_run_codes:
  "sink_codes (ResponseWriter (writer_run w calls)) = sink_codes (ResponseWriter w) @ codes_of calls"
  unfolding writer_run_def
proof (induction calls arbitrary: w)
  case Nil
  show ?case by simp
next
  case (Cons c calls)
  show ?case
    by (cases c)
       (simp_all add: Cons.IH WriteHeader_def sink_WriteHeader_def sink_Write_def
          Flush_def sink_Flush_def Let_def split_beta)
qed

lemma writer_run_statusCode:
  "statusCode (writer_run w calls) = (if codes_of calls = [] then statusCode w else last (codes_of calls))"
  unfolding writer_run_def
proof (induction calls arbitrary: w)
  case Nil
  show ?case by simp
next
  case (Cons c calls)
  show ?case
    by (cases c) (simp_all add: Cons.IH WriteHeader_def Flush_def Let_def)
qed

text \<open>
  Claim C6, as stated, fails: after \<^verbatim>\<open>WriteHeader(404)\<close> and then \<^verbatim>\<open>WriteHeader(0)\<close> the
  last code other than 0 that was set is 404, and \<^verbatim>\<open>Status()\<close> returns 200: the field
  holds the 0 of the last call, which \<^verbatim>\<open>Status()\<close> takes for "not set".
\<close>

theorem Status_last_nonzero_counterexample:
  "codes_of [CallWriteHeader 404, CallWriteHeader 0] = [404, 0]
   \<and> last (removeAll 0 (codes_of [CallWriteHeader 404, CallWriteHeader 0])) = 404
   \<and> Status (writer_run (wrapResponseWriter example_sink) [CallWriteHeader 404, CallWriteHeader 0]) = 200
   \<and> Status (writer_run (wrapResponseWriter example_sink) [CallWriteHeader 404, CallWriteHeader 0])
       \<noteq> last (removeAll 0 (codes_of [CallWriteHeader 404, CallWriteHeader 0]))"
  by (simp add: writer_run_def wrapResponseWriter_def WriteHeader_def sink_WriteHeader_def
        Status_def StatusOK_def Let_def)

text \<open>
  Claim C6, amended. For a wrapped response writer and any sequence of calls made on it:
  if \<^verbatim>\<open>WriteHeader\<close> was never called, \<^verbatim>\<open>Status()\<close> returns 200; otherwise it returns the
  code of the last call of \<^verbatim>\<open>WriteHeader\<close>, except that it returns 200 when that code is
  0; and the underlying writer has received every code, in order.
\<close>

theorem Status_after_calls:
  "Status (writer_run (wrapResponseWriter u) calls)
     = (if codes_of calls = [] \<or> last (codes_of calls) = 0 then 200 else last (codes_of calls))
   \<and> sink_codes (ResponseWriter (writer_run (wrapResponseWriter u) calls))
        = sink_codes u @ codes_of calls"
  by (simp add: Status_def StatusOK_def writer_run_statusCode writer_run_codes
        wrapResponseWriter_def)

theorem Status_after_calls_witness:
  "Status (writer_run (wrapResponseWriter example_sink) [CallWrite ''ok'']) = 200
   \<and> Status (writer_run (wrapResponseWriter example_sink)
        [CallWriteHeader 404, CallWrite ''gone'', CallWriteHeader 201]) = 201
   \<and> sink_codes (ResponseWriter (writer_run (wrapResponseWriter example_sink)
        [CallWriteHeader 404, CallWrite ''gone'', CallWriteHeader 201])) = [404, 201]
   \<and> Status (writer_run (wrapResponseWriter example_sink)
        [CallWriteHeader 404, CallWriteHeader 0]) = 200"
  using Status_after_calls [of example_sink "[CallWrite ''ok'']"]
    Status_after_calls [of example_sink "[CallWriteHeader 404, CallWrite ''gone'', CallWriteHeader 201]"]
    Status_after_calls [of example_sink "[CallWriteHeader 404, CallWriteHeader 0]"]
  by (simp add: example_sink_def)

text \<open>
  Claim C7. For a wrapped response writer whose underlying writer does not implement
  \<^verbatim>\<open>http.Flusher\<close>, \<^verbatim>\<open>Flush()\<close> changes nothing; when it does not implement
  \<^verbatim>\<open>http.Hijacker\<close>, \<^verbatim>\<open>Hijack()\<close> returns a nil connection, a nil read-writer and the
  error "underlying ResponseWriter does not implement http.Hijacker".
\<close>

theorem Flush_Hijack_unsupported:
  "(\<not> sink_flusher (ResponseWriter w) \<longrightarrow> Flush w = w)
   \<and> (sink_hijacker (ResponseWriter w) = None \<longrightarrow>
        Hijack w = (None, None, Some ''underlying ResponseWriter does not implement http.Hijacker''))"
  by (simp add: Flush_def Hijack_def)

theorem Flush_Hijack_unsupported_witness:
  "Flush (wrapResponseWriter example_sink) = wrapResponseWriter example_sink
   \<and> Hijack (wrapResponseWriter example_sink)
       = (None, None, Some ''underlying ResponseWriter does not implement http.Hijacker'')"
  using Flush_Hijack_unsupported [of "wrapResponseWriter example_sink"]
  by (simp add: wrapResponseWriter_def example_sink_def)

section \<open>Theorems: WithLogger\<close>

lemma canonical_keys [simp]:
  "CanonicalMIMEHeaderKey ''Content-Type'' = ''Content-Type''"
  "CanonicalMIMEHeaderKey ''Content-Length'' = ''Content-Length''"
  "CanonicalMIMEHeaderKey ''X-Content-Type-Options'' = ''X-Content-Type-Options''"
  "CanonicalMIMEHeaderKey ''X-Request-Id'' = ''X-Request-Id''"
  "CanonicalMIMEHeaderKey ''X-Request-ID'' = ''X-Request-Id''"
  "CanonicalMIMEHeaderKey ''x-request-id'' = ''X-Request-Id''"
  "CanonicalMIMEHeaderKey ''X-Trace-Id'' = ''X-Trace-Id''"
  "CanonicalMIMEHeaderKey ''X-Span-Id'' = ''X-Span-Id''"
  "CanonicalMIMEHeaderKey ''X-Real-Ip'' = ''X-Real-Ip''"
  by code_simp+

lemma Contains_sublist: "Contains s t = sublist t s"
  by (induction s) (auto simp: sublist_Cons_right)

lemma Contains_ToLower:
  assumes "Contains s t" and "ToLower t = t"
  shows "Contains (ToLower s) t"
proof -
  from assms(1) obtain ps ss where "s = ps @ t @ ss"
    by (auto simp: Contains_sublist sublist_def)
  then have "ToLower s = ToLower ps @ t @ ToLower ss"
    using assms(2) by (simp add: ToLower_def)
  then show ?thesis
    by (auto simp: Contains_sublist sublist_def)
qed

lemma ToLower_json: "ToLower ''application/json'' = ''application/json''"
  by code_simp

lemma shouldLogBody_json: "Contains ct ''application/json'' \<Longrightarrow> shouldLogBody ct"
  by (simp add: shouldLogBody_def Let_def Contains_ToLower ToLower_json)

lemma http_Error_codes: "sink_codes (http_Error w msg code) = sink_codes w @ [code]"
  by (simp add: http_Error_def Let_def sink_WriteHeader_def sink_Write_def)

lemma http_Error_body: "sink_body (http_Error w msg code) = sink_body w @ msg @ [CHR 0x0A]"
  by (simp add: http_Error_def Let_def sink_WriteHeader_def sink_Write_def)

text \<open>
  Claim C1. With request-body logging enabled, a request whose Content-Type contains
  \<^verbatim>\<open>application/json\<close> and whose body is read to its end and is not valid JSON is
  answered by the middleware itself: the status code 400 and the bytes
  \<^verbatim>\<open>failed to parse JSON request-body\<close> followed by a newline are written to the response
  writer, and the next handler is not called.
\<close>

theorem WithLogger_invalid_JSON:
  assumes "LogRequestBody opts"
    and "Contains (Header_Get (req_header r) ''Content-Type'') ''application/json''"
    and "req_body r = Some body"
    and "io_Copy body = Inr bytes"
    and "\<not> json_Unmarshal L bytes"
  shows "out_next (WithLogger L conf opts next w r) = None
    \<and> sink_codes (out_writer (WithLogger L conf opts next w r)) = sink_codes w @ [400]
    \<and> sink_body (out_writer (WithLogger L conf opts next w r))
        = sink_body w @ ''failed to parse JSON request-body'' @ [CHR 0x0A]"
proof -
  have "shouldLogBody (Header_Get (req_header r) ''Content-Type'')"
    using assms(2) by (rule shouldLogBody_json)
  then have "WithLogger L conf opts next w r =
      \<lparr>out_writer = http_Error w ''failed to parse JSON request-body'' StatusBadRequest,
       out_log = [(InfoLevel, ''request started''), (ErrorLevel, ''failed to parse JSON request-body'')],
       out_next = None, out_given = None\<rparr>"
    using assms by (simp add: WithLogger_def request_body_block_def Let_def)
  then show ?thesis
    by (simp add: http_Error_codes http_Error_body StatusBadRequest_def)
qed

theorem WithLogger_invalid_JSON_witness:
  "out_next (WithLogger example_library example_conf DefaultLoggerOptions (\<lambda>r. [CallWrite ''ok''])
       example_sink (example_request ''POST'' ''application/json'' ''not-json'')) = None
   \<and> sink_codes (out_writer (WithLogger example_library example_conf DefaultLoggerOptions (\<lambda>r. [CallWrite ''ok''])
       example_sink (example_request ''POST'' ''application/json'' ''not-json''))) = [400]
   \<and> sink_body (out_writer (WithLogger example_library example_conf DefaultLoggerOptions (\<lambda>r. [CallWrite ''ok''])
       example_sink (example_request ''POST'' ''application/json'' ''not-json'')))
      = ''failed to parse JSON request-body'' @ [CHR 0x0A]"
  using WithLogger_invalid_JSON [of DefaultLoggerOptions
      "example_request ''POST'' ''application/json'' ''not-json''" "Reader ''not-json'' None"
      "''not-json''" example_library example_conf "\<lambda>r. [CallWrite ''ok'']" example_sink]
  by (simp add: DefaultLoggerOptions_def NewLoggerOptions_def example_request_def Header_Get_def
        io_Copy_def example_library_def example_sink_def)

lemma shouldLogBody_examples:
  "shouldLogBody ''application/json''"
  "shouldLogBody ''Application/JSON''"
  "shouldLogBody ''application/x-www-form-urlencoded''"
  "\<not> shouldLogBody ''text/plain''"
  "\<not> shouldLogBody []"
  by code_simp+

lemma ToLower_form:
  "ToLower ''application/x-www-form-urlencoded'' = ''application/x-www-form-urlencoded''"
  by code_simp

lemma response_body_block_codes:
  "sink_codes (ResponseWriter (fst (response_body_block L opts ww))) = sink_codes (ResponseWriter ww)
   \<and> statusCode (fst (response_body_block L opts ww)) = statusCode ww"
  by (simp add: response_body_block_def Let_def Flush_def sink_Flush_def split_beta
        split: option.splits sum.splits)

lemma response_body_block_actions:
  "fst (response_body_block L opts ww) = ww
   \<or> fst (response_body_block L opts ww) = Flush ww
   \<or> (\<exists>reading. sink_reader (ResponseWriter (Flush ww)) = Some reading
        \<and> fst (response_body_block L opts ww)
            = (Flush ww)\<lparr>ResponseWriter := (ResponseWriter (Flush ww))
                 \<lparr>sink_body := snd (reading (sink_body (ResponseWriter (Flush ww))))\<rparr>\<rparr>)"
  by (simp add: response_body_block_def Let_def split_beta split: option.splits sum.splits)

lemma response_body_block_off:
  "\<not> (LogResponseBody opts
       \<and> shouldLogBody (Header_Get (sink_header (ResponseWriter ww)) ''Content-Type''))
   \<Longrightarrow> response_body_block L opts ww = (ww, [])"
  unfolding response_body_block_def Let_def by (simp only: if_False)

lemma response_body_block_sent:
  assumes "sink_flusher (ResponseWriter ww) \<longrightarrow>
             sink_flush (ResponseWriter ww) (sink_header (ResponseWriter ww), sink_body (ResponseWriter ww))
               = (sink_header (ResponseWriter ww), sink_body (ResponseWriter ww))"
    and "\<forall>reading. sink_reader (ResponseWriter ww) = Some reading \<longrightarrow>
             snd (reading (sink_body (ResponseWriter ww))) = sink_body (ResponseWriter ww)"
  shows "sent (ResponseWriter (fst (response_body_block L opts ww))) = sent (ResponseWriter ww)"
proof -
  have flushed: "sent (ResponseWriter (Flush ww)) = sent (ResponseWriter ww)
      \<and> sink_reader (ResponseWriter (Flush ww)) = sink_reader (ResponseWriter ww)"
    using assms(1) by (simp add: Flush_def sink_Flush_def sent_def)
  then have body: "sink_body (ResponseWriter (Flush ww)) = sink_body (ResponseWriter ww)"
    by (simp add: sent_def)
  show ?thesis
    using response_body_block_actions [of L opts ww] flushed body assms(2)
    by (auto simp: sent_def)
qed

lemma WithLogger_continue:
  assumes "out_next (WithLogger L conf opts next w r) = Some r'"
  shows "out_given (WithLogger L conf opts next w r)
           = Some (response_headers L (getRequestID L r conf) w)
    \<and> out_writer (WithLogger L conf opts next w r) =
       ResponseWriter (fst (response_body_block L opts
         (writer_run (wrapResponseWriter (response_headers L (getRequestID L r conf) w)) (next r'))))"
  using assms
  by (auto simp: WithLogger_def Let_def wrapResponseWriter_def
        split: option.splits sum.splits prod.splits if_splits)

lemma example_passed_on:
  "out_next (WithLogger example_library example_conf DefaultLoggerOptions example_handler
       readable_sink (example_request ''GET'' ''text/plain'' ''hello''))
     = Some (passed_on (example_request ''GET'' ''text/plain'' ''hello''))"
  by (simp add: WithLogger_def Let_def DefaultLoggerOptions_def NewLoggerOptions_def
        example_request_def Header_Get_def example_library_def example_conf_def
        shouldLogBody_examples passed_on_def getRequestID_def WithValue_def split_beta)

text \<open>
  Claim C8, as stated, fails: the response-body block does not only log. It flushes the
  writer and, when the writer can be read, reads it to its end. For a writer that reads
  from the buffer it writes to, the bytes \<^verbatim>\<open>{bad\<close> that the handler wrote are held when
  the handler returns and are gone after the block; so they are at the end of the
  middleware.
\<close>

theorem response_body_logging_counterexample:
  "sink_body (ResponseWriter (writer_run (wrapResponseWriter buffer_sink)
       (example_handler (example_request ''GET'' ''text/plain'' ''hello'')))) = ''{bad''
   \<and> sink_body (ResponseWriter (fst (response_body_block example_library DefaultLoggerOptions
       (writer_run (wrapResponseWriter buffer_sink)
          (example_handler (example_request ''GET'' ''text/plain'' ''hello'')))))) = []
   \<and> sink_flushes (ResponseWriter (fst (response_body_block example_library DefaultLoggerOptions
       (writer_run (wrapResponseWriter buffer_sink)
          (example_handler (example_request ''GET'' ''text/plain'' ''hello'')))))) = 1
   \<and> sink_body (out_writer (WithLogger example_library example_conf DefaultLoggerOptions
       example_handler buffer_sink (example_request ''GET'' ''text/plain'' ''hello''))) = []"
  by (simp add: WithLogger_def Let_def DefaultLoggerOptions_def NewLoggerOptions_def
        example_request_def Header_Get_def example_library_def example_conf_def
        shouldLogBody_examples response_body_block_def response_headers_def Header_Set_def
        writer_run_def wrapResponseWriter_def WriteHeader_def sink_WriteHeader_def
        sink_Write_def Flush_def sink_Flush_def io_Copy_def example_handler_def
        buffer_sink_def example_sink_def getRequestID_def split_beta)

text \<open>
  Claim C8, amended. The response-body block of the middleware passes no status code, no
  header change and no bytes to the writer: the status codes the writer has received and
  the status the wrapper has recorded are unchanged on every path. What the block does to
  the writer is at most one \<^verbatim>\<open>Flush\<close> and, after it, one reading of the writer to the end
  of its stream; when response logging is off or the content type of the response is not
  on the allow-list the block does nothing at all. For a writer whose own \<^verbatim>\<open>Flush\<close> and
  whose being read leave its header map and the bytes it holds as they are, the status
  codes, headers and body are unchanged on every path of the block. The writer at the end
  of the middleware is the writer as the block leaves it.
\<close>

theorem response_body_logging_frame:
  "sink_codes (ResponseWriter (fst (response_body_block L opts ww))) = sink_codes (ResponseWriter ww)
   \<and> statusCode (fst (response_body_block L opts ww)) = statusCode ww
   \<and> (fst (response_body_block L opts ww) = ww
      \<or> fst (response_body_block L opts ww) = Flush ww
      \<or> (\<exists>reading. sink_reader (ResponseWriter (Flush ww)) = Some reading
           \<and> fst (response_body_block L opts ww)
               = (Flush ww)\<lparr>ResponseWriter := (ResponseWriter (Flush ww))
                    \<lparr>sink_body := snd (reading (sink_body (ResponseWriter (Flush ww))))\<rparr>\<rparr>))
   \<and> (\<not> (LogResponseBody opts
           \<and> shouldLogBody (Header_Get (sink_header (ResponseWriter ww)) ''Content-Type''))
        \<longrightarrow> response_body_block L opts ww = (ww, []))
   \<and> ((sink_flusher (ResponseWriter ww) \<longrightarrow>
          sink_flush (ResponseWriter ww) (sink_header (ResponseWriter ww), sink_body (ResponseWriter ww))
            = (sink_header (ResponseWriter ww), sink_body (ResponseWriter ww)))
       \<and> (\<forall>reading. sink_reader (ResponseWriter ww) = Some reading \<longrightarrow>
             snd (reading (sink_body (ResponseWriter ww))) = sink_body (ResponseWriter ww))
        \<longrightarrow> sent (ResponseWriter (fst (response_body_block L opts ww))) = sent (ResponseWriter ww))
   \<and> (out_next (WithLogger L conf opts next w r) = Some r' \<longrightarrow>
        out_writer (WithLogger L conf opts next w r)
          = ResponseWriter (fst (response_body_block L opts (writer_run
               (wrapResponseWriter (response_headers L (getRequestID L r conf) w)) (next r')))))"
  using response_body_block_codes [of L opts ww] response_body_block_actions [of L opts ww]
    response_body_block_off [of opts ww L] response_body_block_sent [of ww L opts]
    WithLogger_continue [of L conf opts "next" w r r']
  by blast

theorem response_body_logging_frame_witness:
  "sink_codes (out_writer (WithLogger example_library example_conf DefaultLoggerOptions
       example_handler readable_sink (example_request ''GET'' ''text/plain'' ''hello''))) = [201]
   \<and> sink_body (out_writer (WithLogger example_library example_conf DefaultLoggerOptions
       example_handler readable_sink (example_request ''GET'' ''text/plain'' ''hello''))) = ''{bad''
   \<and> sink_flushes (out_writer (WithLogger example_library example_conf DefaultLoggerOptions
       example_handler readable_sink (example_request ''GET'' ''text/plain'' ''hello''))) = 1
   \<and> out_log (WithLogger example_library example_conf DefaultLoggerOptions
       example_handler readable_sink (example_request ''GET'' ''text/plain'' ''hello''))
      = [(InfoLevel, ''request started''), (InfoLevel, ''request completed''),
         (ErrorLevel, ''failed to parse JSON response-body'')]"
proof -
  let ?r = "example_request ''GET'' ''text/plain'' ''hello''"
  let ?ww = "writer_run (wrapResponseWriter (response_headers example_library
       (getRequestID example_library ?r example_conf) readable_sink))
     (example_handler (passed_on ?r))"
  have ww: "ResponseWriter ?ww = readable_sink
      \<lparr>sink_header := [''X-Request-Id'' \<mapsto> [''123e4567-e89b-12d3-a456-426614174000''],
                        ''Content-Type'' \<mapsto> [''application/json'']],
       sink_codes := [201], sink_body := ''{bad''\<rparr>"
    by (simp add: writer_run_def wrapResponseWriter_def response_headers_def Header_Set_def
          WriteHeader_def sink_WriteHeader_def sink_Write_def example_handler_def
          readable_sink_def example_sink_def example_library_def example_conf_def
          example_request_def getRequestID_def Header_Get_def Let_def)
  have flush: "sink_flusher (ResponseWriter ?ww) \<longrightarrow>
      sink_flush (ResponseWriter ?ww) (sink_header (ResponseWriter ?ww), sink_body (ResponseWriter ?ww))
        = (sink_header (ResponseWriter ?ww), sink_body (ResponseWriter ?ww))"
    unfolding ww by (simp add: readable_sink_def example_sink_def)
  have reading: "\<forall>reading. sink_reader (ResponseWriter ?ww) = Some reading \<longrightarrow>
      snd (reading (sink_body (ResponseWriter ?ww))) = sink_body (ResponseWriter ?ww)"
    unfolding ww by (auto simp: readable_sink_def example_sink_def)
  have log: "out_log (WithLogger example_library example_conf DefaultLoggerOptions
       example_handler readable_sink ?r)
      = [(InfoLevel, ''request started''), (InfoLevel, ''request completed''),
         (ErrorLevel, ''failed to parse JSON response-body'')]
     \<and> sink_flushes (out_writer (WithLogger example_library example_conf DefaultLoggerOptions
       example_handler readable_sink ?r)) = 1"
    by (simp add: WithLogger_def Let_def DefaultLoggerOptions_def NewLoggerOptions_def
          example_request_def Header_Get_def example_library_def example_conf_def
          shouldLogBody_examples response_body_block_def response_headers_def Header_Set_def
          writer_run_def wrapResponseWriter_def WriteHeader_def sink_WriteHeader_def
          sink_Write_def Flush_def sink_Flush_def io_Copy_def example_handler_def
          readable_sink_def example_sink_def getRequestID_def split_beta)
  have "sent (out_writer (WithLogger example_library example_conf DefaultLoggerOptions
       example_handler readable_sink ?r)) = sent (ResponseWriter ?ww)"
    using response_body_logging_frame [of example_library DefaultLoggerOptions ?ww example_conf
        example_handler readable_sink ?r "passed_on ?r"]
      example_passed_on flush reading
    by simp
  then show ?thesis
    using log unfolding ww by (simp add: sent_def)
qed

lemma sink_flush_writer_step: "sink_flush (ResponseWriter (writer_step w c)) = sink_flush (ResponseWriter w)"
  by (cases c)
     (simp_all add: WriteHeader_def sink_WriteHeader_def sink_Write_def Flush_def sink_Flush_def
        Let_def split_beta)

lemma writer_step_header:
  assumes "call_header c \<noteq> Some k"
    and "\<forall>h b. fst (sink_flush (ResponseWriter w) (h, b)) k = h k"
  shows "sink_header (ResponseWriter (writer_step w c)) k = sink_header (ResponseWriter w) k"
  using assms
  by (cases c)
     (auto simp: WriteHeader_def sink_WriteHeader_def sink_Write_def Flush_def sink_Flush_def
        Header_Set_def Header_Del_def Let_def split_beta)

lemma writer_run_header:
  assumes "\<forall>c\<in>set calls. call_header c \<noteq> Some k"
    and "\<forall>h b. fst (sink_flush (ResponseWriter w) (h, b)) k = h k"
  shows "sink_header (ResponseWriter (writer_run w calls)) k = sink_header (ResponseWriter w) k
    \<and> sink_flush (ResponseWriter (writer_run w calls)) = sink_flush (ResponseWriter w)"
  using assms unfolding writer_run_def
proof (induction calls arbitrary: w)
  case Nil
  show ?case by simp
next
  case (Cons c calls)
  have step: "sink_header (ResponseWriter (writer_step w c)) k = sink_header (ResponseWriter w) k"
    using writer_step_header [of c k w] Cons.prems by simp
  have "\<forall>h b. fst (sink_flush (ResponseWriter (writer_step w c)) (h, b)) k = h k"
    using Cons.prems(2) by (simp add: sink_flush_writer_step)
  then show ?case
    using Cons.IH [of "writer_step w c"] Cons.prems(1) step
    by (simp add: sink_flush_writer_step)
qed

lemma response_body_block_header:
  assumes "\<forall>h b. fst (sink_flush (ResponseWriter ww) (h, b)) k = h k"
  shows "sink_header (ResponseWriter (fst (response_body_block L opts ww))) k
           = sink_header (ResponseWriter ww) k"
proof -
  have "sink_header (ResponseWriter (Flush ww)) k = sink_header (ResponseWriter ww) k"
    using assms by (simp add: Flush_def sink_Flush_def split_beta)
  then show ?thesis
    using response_body_block_actions [of L opts ww] by auto
qed

lemma response_headers_request_id:
  "sink_header (response_headers L requestID w) ''X-Request-Id'' = Some [requestID]
   \<and> sink_flush (response_headers L requestID w) = sink_flush w"
  by (simp add: response_headers_def Let_def Header_Set_def split: option.splits)

text \<open>The configured name of the request-id header is looked up in canonical form.\<close>

lemma getRequestID_canonical:
  "getRequestID example_library
     ((example_request ''GET'' ''text/plain'' ''hello'')\<lparr>req_header := [''X-Request-Id'' \<mapsto> [''abc'']]\<rparr>)
     \<lparr>RealIPHeader = ''X-Real-Ip'', RequestIDHeader = ''X-Request-ID''\<rparr> = ''abc''"
  by (simp add: getRequestID_def Header_Get_def example_request_def)

text \<open>
  Claim C3, as stated, fails: a request without a request-id header whose JSON body does
  not parse is answered with 400 by an early return, before the middleware sets
  \<^verbatim>\<open>X-Request-Id\<close>; the response has no such header.
\<close>

theorem request_id_counterexample:
  "Header_Get (req_header (example_request ''POST'' ''application/json'' ''not-json''))
      (RequestIDHeader example_conf) = []
   \<and> sink_codes (out_writer (WithLogger example_library example_conf DefaultLoggerOptions
       example_handler example_sink
       (example_request ''POST'' ''application/json'' ''not-json''))) = [400]
   \<and> sink_header (out_writer (WithLogger example_library example_conf DefaultLoggerOptions
       example_handler example_sink
       (example_request ''POST'' ''application/json'' ''not-json''))) ''X-Request-Id'' = None"
  by (simp add: WithLogger_def request_body_block_def Let_def
        DefaultLoggerOptions_def NewLoggerOptions_def example_request_def Header_Get_def
        io_Copy_def example_library_def example_sink_def shouldLogBody_examples
        http_Error_def Header_Set_def Header_Del_def sink_WriteHeader_def sink_Write_def
        example_conf_def StatusBadRequest_def)

text \<open>
  Claim C3, amended. For a request that carries no request-id header and that the
  middleware passes on to the next handler, the middleware sets the newly generated UUID
  as the response header \<^verbatim>\<open>X-Request-Id\<close> before it calls the handler: the writer that
  the handler is called with has that header, and the writer at the end is this writer
  after the calls of the handler and the response-body block. The header still has that
  value at the end when the handler does not set or delete it (under any spelling of its
  name) and the \<^verbatim>\<open>Flush\<close> of the underlying writer leaves it alone.
\<close>

theorem WithLogger_request_id:
  assumes "Header_Get (req_header r) (RequestIDHeader conf) = []"
    and "out_next (WithLogger L conf opts next w r) = Some r'"
  shows "(\<exists>given. out_given (WithLogger L conf opts next w r) = Some given
            \<and> sink_header given ''X-Request-Id'' = Some [uuid_New L]
            \<and> out_writer (WithLogger L conf opts next w r)
                = ResponseWriter (fst (response_body_block L opts
                    (writer_run (wrapResponseWriter given) (next r')))))
    \<and> ((\<forall>c\<in>set (next r'). call_header c \<noteq> Some ''X-Request-Id'')
          \<and> (\<forall>h b. fst (sink_flush w (h, b)) ''X-Request-Id'' = h ''X-Request-Id'')
        \<longrightarrow> sink_header (out_writer (WithLogger L conf opts next w r)) ''X-Request-Id''
              = Some [uuid_New L])"
proof -
  let ?given = "response_headers L (uuid_New L) w"
  have id: "getRequestID L r conf = uuid_New L"
    using assms(1) by (simp add: getRequestID_def)
  note cont = WithLogger_continue [OF assms(2), unfolded id]
  have first: "\<exists>given. out_given (WithLogger L conf opts next w r) = Some given
            \<and> sink_header given ''X-Request-Id'' = Some [uuid_New L]
            \<and> out_writer (WithLogger L conf opts next w r)
                = ResponseWriter (fst (response_body_block L opts
                    (writer_run (wrapResponseWriter given) (next r'))))"
    using cont response_headers_request_id [of L "uuid_New L" w] by simp
  have second: "sink_header (out_writer (WithLogger L conf opts next w r)) ''X-Request-Id''
              = Some [uuid_New L]"
    if calls: "\<forall>c\<in>set (next r'). call_header c \<noteq> Some ''X-Request-Id''"
      and flush: "\<forall>h b. fst (sink_flush w (h, b)) ''X-Request-Id'' = h ''X-Request-Id''"
  proof -
    have fl: "\<forall>h b. fst (sink_flush (ResponseWriter (wrapResponseWriter ?given)) (h, b)) ''X-Request-Id''
        = h ''X-Request-Id''"
      using flush response_headers_request_id [of L "uuid_New L" w]
      by (simp add: wrapResponseWriter_def)
    note run = writer_run_header [OF calls fl]
    have "\<forall>h b. fst (sink_flush (ResponseWriter (writer_run (wrapResponseWriter ?given) (next r'))) (h, b))
        ''X-Request-Id'' = h ''X-Request-Id''"
      using run fl by simp
    then have "sink_header (out_writer (WithLogger L conf opts next w r)) ''X-Request-Id''
        = sink_header (ResponseWriter (writer_run (wrapResponseWriter ?given) (next r'))) ''X-Request-Id''"
      using cont by (simp add: response_body_block_header)
    then show ?thesis
      using run response_headers_request_id [of L "uuid_New L" w]
      by (simp add: wrapResponseWriter_def)
  qed
  show ?thesis
    using first second by blast
qed

theorem WithLogger_request_id_witness:
  "(\<exists>given. out_given (WithLogger example_library example_conf DefaultLoggerOptions
       example_handler readable_sink (example_request ''GET'' ''text/plain'' ''hello'')) = Some given
      \<and> sink_header given ''X-Request-Id'' = Some [''123e4567-e89b-12d3-a456-426614174000''])
   \<and> sink_header (out_writer (WithLogger example_library example_conf DefaultLoggerOptions
       example_handler readable_sink (example_request ''GET'' ''text/plain'' ''hello'')))
     ''X-Request-Id'' = Some [''123e4567-e89b-12d3-a456-426614174000'']"
proof -
  have none: "Header_Get (req_header (example_request ''GET'' ''text/plain'' ''hello''))
      (RequestIDHeader example_conf) = []"
    by (simp add: example_request_def example_conf_def Header_Get_def)
  have calls: "\<forall>c\<in>set (example_handler (passed_on (example_request ''GET'' ''text/plain'' ''hello''))).
      call_header c \<noteq> Some ''X-Request-Id''"
    by (simp add: example_handler_def)
  have flush: "\<forall>h b. fst (sink_flush readable_sink (h, b)) ''X-Request-Id'' = h ''X-Request-Id''"
    by (simp add: readable_sink_def example_sink_def)
  have id: "uuid_New example_library = ''123e4567-e89b-12d3-a456-426614174000''"
    by (simp add: example_library_def)
  show ?thesis
    using WithLogger_request_id [OF none example_passed_on] calls flush
    unfolding id by blast
qed

lemma WithLogger_JSON_body_intact:
  assumes "LogRequestBody opts"
    and "Contains (Header_Get (req_header r) ''Content-Type'') ''application/json''"
    and "req_body r = Some body"
    and "io_Copy body = Inr bytes"
    and "json_Unmarshal L bytes"
  shows "map_option req_body (out_next (WithLogger L conf opts next w r))
           = Some (Some (Reader bytes None))"
  using assms shouldLogBody_json [OF assms(2)]
  by (simp add: WithLogger_def request_body_block_def Let_def split_beta)

text \<open>
  Claim C2 at a form request. A POST request with the content type
  \<^verbatim>\<open>application/x-www-form-urlencoded\<close> and the body \<^verbatim>\<open>a=1\<close> is read, its body is put
  back, and then \<^verbatim>\<open>r.ParseForm()\<close> reads the body that was put back: the request that
  reaches the next handler has a body at its end, with no bytes left of \<^verbatim>\<open>a=1\<close>.
\<close>

theorem form_body_consumed:
  "map_option req_body (out_next (WithLogger example_library example_conf DefaultLoggerOptions
       example_handler example_sink
       (example_request ''POST'' ''application/x-www-form-urlencoded'' ''a=1'')))
     = Some (Some (Reader [] None))"
  by (simp add: WithLogger_def request_body_block_def ParseForm_def parsePostForm_def Let_def
        DefaultLoggerOptions_def NewLoggerOptions_def example_request_def Header_Get_def
        io_Copy_def example_library_def example_sink_def shouldLogBody_examples
        ToLower_form maxFormSize_def split_beta)

text \<open>
  Claim C5 at a content type in another letter case. For \<^verbatim>\<open>Application/JSON\<close> and the
  body \<^verbatim>\<open>not-json\<close> the body is read, since \<^verbatim>\<open>shouldLogBody\<close> compares in lower case, but
  the \<^verbatim>\<open>switch\<close> compares the header as it came: no JSON branch is taken, the body is
  logged as raw text, nothing is rejected and the next handler runs.
\<close>

theorem case_variant_not_rejected:
  "shouldLogBody ''Application/JSON''
   \<and> out_next (WithLogger example_library example_conf DefaultLoggerOptions
       (\<lambda>r. [CallWrite ''ok'']) example_sink
       (example_request ''POST'' ''Application/JSON'' ''not-json'')) \<noteq> None
   \<and> sink_codes (out_writer (WithLogger example_library example_conf DefaultLoggerOptions
       (\<lambda>r. [CallWrite ''ok'']) example_sink
       (example_request ''POST'' ''Application/JSON'' ''not-json''))) = []
   \<and> sink_body (out_writer (WithLogger example_library example_conf DefaultLoggerOptions
       (\<lambda>r. [CallWrite ''ok'']) example_sink
       (example_request ''POST'' ''Application/JSON'' ''not-json''))) = ''ok''
   \<and> out_log (WithLogger example_library example_conf DefaultLoggerOptions
       (\<lambda>r. [CallWrite ''ok'']) example_sink
       (example_request ''POST'' ''Application/JSON'' ''not-json''))
      = [(InfoLevel, ''request started''), (InfoLevel, ''request-body parsed''),
         (InfoLevel, ''request completed'')]"
  by (simp add: WithLogger_def request_body_block_def Let_def
        DefaultLoggerOptions_def NewLoggerOptions_def example_request_def Header_Get_def
        io_Copy_def example_library_def example_sink_def shouldLogBody_examples
        response_body_block_def response_headers_def Header_Set_def writer_run_def
        wrapResponseWriter_def sink_Write_def split_beta)

section \<open>Theorems: the test suite\<close>

lemma run_hooks_append: "run_hooks (hs @ hs') c = run_hooks hs' (run_hooks hs c)"
  by (induction hs arbitrary: c) simp_all

lemma run_middlewares_append:
  "run_middlewares (ms @ ms') r c = run_middlewares ms' r (run_middlewares ms r c)"
  by (induction ms arbitrary: c) simp_all

text \<open>
  Claim C4, as stated, fails: the before-each hooks run on the context of the incoming
  request, before the standard attachments. In the example suite the hook attaches the
  tenant 99 and the suite's own tenant 1 is attached on top of it; in the order of the
  claim the handler would see the tenant 99.
\<close>

theorem hooks_after_attachments_counterexample:
  "setupMiddleware example_suite (example_request ''GET'' [] [])
     \<noteq> spec_pipeline example_suite (example_request ''GET'' [] [])
   \<and> Value (setupMiddleware example_suite (example_request ''GET'' [] [])) TenantIDKey
        = Some (TenantIDVal 1)
   \<and> Value (spec_pipeline example_suite (example_request ''GET'' [] [])) TenantIDKey
        = Some (TenantIDVal 99)"
  by (simp add: setupMiddleware_def spec_pipeline_def standard_attachments_def example_suite_def
        example_request_def Let_def WithUser_def WithPool_def
        WithSession_def WithTenantID_def WithParams_def WithPageCtx_def WithValue_def Value_def)

text \<open>
  Claim C4, amended. The before-each hooks are applied first, to the context of the
  incoming request; the standard attachments (with the IP 127.0.0.1 and the user agent
  test-agent in the params) are put on top of the result; the custom middleware functions
  are applied after all standard attachments. Hooks and middleware functions run in the
  order of their registration: one registered later is applied to the result of those
  registered before.
\<close>

theorem setupMiddleware_order:
  "setupMiddleware s r =
     run_middlewares (suite_middlewares s) r
       (standard_attachments s r @ run_hooks (suite_beforeEach s) (req_ctx r))
   \<and> Value (standard_attachments s r @ c) ParamsKey
       = Some (ParamsVal ''127.0.0.1'' ''test-agent''
           (suite_user s \<noteq> None \<or> env_User (suite_env s) \<noteq> None))
   \<and> run_hooks (suite_beforeEach (BeforeEach s hook)) c = hook (run_hooks (suite_beforeEach s) c)
   \<and> run_middlewares (suite_middlewares (WithMiddleware s mw)) r c
       = mw (run_middlewares (suite_middlewares s) r c) r"
  by (simp add: setupMiddleware_def standard_attachments_def Let_def WithUser_def WithPool_def
        WithSession_def WithTenantID_def WithParams_def WithPageCtx_def WithValue_def Value_def
        BeforeEach_def WithMiddleware_def run_hooks_append run_middlewares_append
        split: option.splits)

theorem setupMiddleware_order_witness:
  "Value (setupMiddleware example_suite (example_request ''GET'' [] [])) TenantIDKey
      = Some (TenantIDVal 1)
   \<and> Value (setupMiddleware example_suite (example_request ''GET'' [] [])) (OtherKey ''mw'')
      = Some (OtherVal ''/echo'')
   \<and> Value (setupMiddleware example_suite (example_request ''GET'' [] [])) ParamsKey
      = Some (ParamsVal ''127.0.0.1'' ''test-agent'' True)"
  using setupMiddleware_order [of example_suite "example_request ''GET'' [] []"]
  by (simp add: example_suite_def example_request_def standard_attachments_def Value_def
        WithValue_def Let_def)

lemma body_step_shape:
  assumes "body_step E r c = Some r1"
  shows "\<exists>b t. \<forall>r0. body_step E r0 c =
           Some (r0\<lparr>rq_body := Some b, rq_headers := Header_Set (rq_headers r0) ''Content-Type'' t\<rparr>)"
proof (cases c)
  case (CallJSON v)
  with assms obtain d where "json_Marshal E v = Some d"
    by (auto simp: Request_JSON_def split: option.splits)
  with CallJSON show ?thesis
    by (auto simp: Request_JSON_def)
next
  case (CallForm vs)
  then show ?thesis
    by (auto simp: Request_Form_def)
next
  case (CallMultipartData data boundary)
  with assms obtain writer where "multipart_writer E data boundary = Some writer"
    by (auto simp: Request_MultipartData_def split: option.splits)
  with CallMultipartData show ?thesis
    by (auto simp: Request_MultipartData_def)
qed

lemma body_step_overwrite:
  assumes "body_step E r c = Some r1"
    and "rq_method r0 = rq_method r" and "rq_path r0 = rq_path r"
    and "\<forall>k. k \<noteq> ''Content-Type'' \<longrightarrow> rq_headers r0 k = rq_headers r k"
  shows "body_step E r0 c = Some r1"
proof -
  from body_step_shape [OF assms(1)] obtain b t where
    shape: "\<And>r0. body_step E r0 c =
           Some (r0\<lparr>rq_body := Some b, rq_headers := Header_Set (rq_headers r0) ''Content-Type'' t\<rparr>)"
    by blast
  have "(rq_headers r0)(''Content-Type'' \<mapsto> [t]) = (rq_headers r)(''Content-Type'' \<mapsto> [t])"
    using assms(4) by (auto simp: fun_eq_iff)
  then have "r0\<lparr>rq_body := Some b, rq_headers := Header_Set (rq_headers r0) ''Content-Type'' t\<rparr>
      = r\<lparr>rq_body := Some b, rq_headers := Header_Set (rq_headers r) ''Content-Type'' t\<rparr>"
    using assms(2,3) by (simp add: Header_Set_def)
  then show ?thesis
    using shape [of r0] shape [of r] assms(1) by simp
qed

lemma body_step_frame:
  assumes "body_step E r c = Some r1"
  shows "rq_method r1 = rq_method r \<and> rq_path r1 = rq_path r
    \<and> (\<forall>k. k \<noteq> ''Content-Type'' \<longrightarrow> rq_headers r1 k = rq_headers r k)"
  using assms
  by (cases c)
     (auto simp: Request_JSON_def Request_Form_def Request_MultipartData_def Header_Set_def
        split: option.splits)

lemma body_run_last:
  assumes "calls \<noteq> []" and "body_run E r0 calls = Some r'"
    and "rq_method r0 = rq_method r" and "rq_path r0 = rq_path r"
    and "\<forall>k. k \<noteq> ''Content-Type'' \<longrightarrow> rq_headers r0 k = rq_headers r k"
  shows "body_step E r (last calls) = Some r'"
  using assms
proof (induction calls arbitrary: r0)
  case Nil
  then show ?case by simp
next
  case (Cons c cs)
  from Cons.prems(2) obtain r1 where step: "body_step E r0 c = Some r1"
    and rest: "body_run E r1 cs = Some r'"
    by (auto split: option.splits)
  show ?case
  proof (cases "cs = []")
    case True
    then have "r1 = r'" using rest by simp
    moreover have "body_step E r c = Some r1"
      using body_step_overwrite [OF step, of r] Cons.prems(3,4,5) by simp
    ultimately show ?thesis using True by simp
  next
    case False
    have "rq_method r1 = rq_method r \<and> rq_path r1 = rq_path r
      \<and> (\<forall>k. k \<noteq> ''Content-Type'' \<longrightarrow> rq_headers r1 k = rq_headers r k)"
      using body_step_frame [OF step] Cons.prems(3,4,5) by simp
    then have "body_step E r (last cs) = Some r'"
      using Cons.IH [OF False rest] by simp
    then show ?thesis using False by simp
  qed
qed

text \<open>
  Claim C9. Each of the three body-encoding calls of the request builder overwrites the
  body and the Content-Type header and nothing else: after any non-empty sequence of such
  calls that returns, the builder is the one that the last call alone returns on the
  initial builder, so its body bytes and its Content-Type header are those of the last
  call.
\<close>

theorem body_encoding_last_wins:
  assumes "calls \<noteq> []" and "body_run E r calls = Some r'"
  shows "body_step E r (last calls) = Some r'"
  using body_run_last [OF assms] by simp

theorem body_encoding_last_wins_witness:
  "body_run example_encoders example_builder
      [CallJSON (Some 2), CallMultipartData \<lparr>md_files = [\<lparr>FieldName = ''f'', FileName = ''a.txt'', Content = ''hi''\<rparr>],
          md_formValues = Some [(''k'', [''v''])]\<rparr> ''xyz'', CallForm [''a'' \<mapsto> [''1'']]]
    = Some (example_builder\<lparr>rq_body := Some ''a=1'',
         rq_headers := [''Content-Type'' \<mapsto> [''application/x-www-form-urlencoded'']]\<rparr>)
   \<and> body_step example_encoders example_builder (CallForm [''a'' \<mapsto> [''1'']])
    = Some (example_builder\<lparr>rq_body := Some ''a=1'',
         rq_headers := [''Content-Type'' \<mapsto> [''application/x-www-form-urlencoded'']]\<rparr>)"
proof -
  have run: "body_run example_encoders example_builder
      [CallJSON (Some 2), CallMultipartData \<lparr>md_files = [\<lparr>FieldName = ''f'', FileName = ''a.txt'', Content = ''hi''\<rparr>],
          md_formValues = Some [(''k'', [''v''])]\<rparr> ''xyz'', CallForm [''a'' \<mapsto> [''1'']]]
    = Some (example_builder\<lparr>rq_body := Some ''a=1'',
         rq_headers := [''Content-Type'' \<mapsto> [''application/x-www-form-urlencoded'']]\<rparr>)"
    by (simp add: example_encoders_def example_builder_def Request_JSON_def Request_Form_def
          Request_MultipartData_def multipart_writer_def Header_Set_def Let_def)
  show ?thesis
    using body_encoding_last_wins [OF _ run] run by simp
qed

end
